theory Spec2Isabelle
  imports Complex_Main "HOL-Library.Multiset"
begin

section \<open>Retrieval strategy layer: data model\<close>

text \<open>
  The search and web strategies of \<^verbatim>\<open>adapters/search/strategy.go\<close> and
  \<^verbatim>\<open>adapters/web/strategy.go\<close>. Go strings are byte strings and are modelled
  as \<^typ>\<open>string\<close>; Go \<^verbatim>\<open>int\<close> values are modelled as \<^typ>\<open>int\<close> (no
  quantity of the strategies comes near the machine bounds). A slice that the code
  tests against \<^verbatim>\<open>nil\<close> is a \<^typ>\<open>'a list option\<close>, with \<open>None\<close> for the
  nil slice. A pointer that may be nil is an option as well.
\<close>

type_synonym SearchEngine = string

text \<open>The values the strategies store under \<^verbatim>\<open>Metadata\<close> (Go's \<^verbatim>\<open>interface{}\<close>).\<close>

datatype meta_value = MetaString string | MetaInt int

text \<open>
  \<^verbatim>\<open>SearchResultItem\<close>. The \<^verbatim>\<open>Score\<close> field (a float the strategies never
  read or write) is left out. A nil \<^verbatim>\<open>Metadata\<close> map is the empty map: the
  strategies allocate it before the first write.
\<close>

record SearchResultItem =
  Title :: string
  URL :: string
  Description :: string
  Link :: string
  Snippet :: string
  Rank :: int
  PublishDate :: string
  FileType :: string
  Metadata :: "string \<rightharpoonup> meta_value"

record SearchResponse =
  Query :: string
  Results :: "SearchResultItem list option"
  TotalCount :: int
  TimeTaken :: int

text \<open>
  The elements of a response's result slice; a nil slice has none (\<^verbatim>\<open>len\<close> is
  zero and \<^verbatim>\<open>range\<close> visits nothing).
\<close>

definition resultItems :: "SearchResponse \<Rightarrow> SearchResultItem list" where
  "resultItems r = (case Results r of None \<Rightarrow> [] | Some rs \<Rightarrow> rs)"

text \<open>Only the query of a \<^verbatim>\<open>SearchRequest\<close> is read by the strategy.\<close>

record SearchRequest =
  ReqQuery :: string
  Num :: int

text \<open>
  Errors are values. \<open>External\<close> is an error produced outside the strategy (by an
  adapter factory or an adapter call); the other constructors are the
  \<^verbatim>\<open>fmt.Errorf\<close> wrappers of the strategies, each keeping what it wraps.
\<close>

datatype error =
    External string
  | CreateAdapterFailed SearchEngine error
  | EngineSearchFailed SearchEngine error
  | AllEnginesFailed "error option"
  | EngineFailed SearchEngine error
  | AllMixedFailed "error list"
  | NoMixedResults
  | NoMixedEnginesConfigured
  | ScraperFailed SearchEngine error
  | ScraperMultipleFailed SearchEngine error
  | CreateWebAdapterFailed SearchEngine error
  | AllScrapersFailed "error option"

text \<open>
  A search adapter is its \<^verbatim>\<open>Search\<close> method: it returns an error, or a
  response pointer that may be nil.
\<close>

type_synonym SearchAdapter = "SearchRequest \<Rightarrow> error + SearchResponse option"

record SearchStrategyConfig =
  Breadth :: int
  MixedEngines :: "SearchEngine list"
  DefaultEngine :: SearchEngine
  DefaultFallbackOrder :: "SearchEngine list"
  EnableFallback :: bool
  FailFast :: bool

record DefaultSearchStrategy =
  config :: SearchStrategyConfig
  adapters :: "SearchEngine \<rightharpoonup> SearchAdapter"

text \<open>The zero value \<^verbatim>\<open>&SearchStrategyConfig{}\<close>.\<close>

definition zeroSearchStrategyConfig :: SearchStrategyConfig where
  "zeroSearchStrategyConfig =
     \<lparr>Breadth = 0, MixedEngines = [], DefaultEngine = [], DefaultFallbackOrder = [],
      EnableFallback = False, FailFast = False\<rparr>"

text \<open>\<^verbatim>\<open>NewDefaultSearchStrategy\<close>; the argument is \<open>None\<close> for a nil pointer.\<close>

definition NewDefaultSearchStrategy :: "SearchStrategyConfig option \<Rightarrow> DefaultSearchStrategy" where
  "NewDefaultSearchStrategy cfg0 =
     (let c0 = (case cfg0 of None \<Rightarrow> zeroSearchStrategyConfig | Some c \<Rightarrow> c);
          c1 = (if DefaultEngine c0 = [] then c0\<lparr>DefaultEngine := ''searxng''\<rparr> else c0);
          c2 = (if length (DefaultFallbackOrder c1) = 0
                then c1\<lparr>DefaultFallbackOrder := [''searxng'', ''firecrawl'']\<rparr> else c1);
          c3 = (if EnableFallback c2 = False then c2\<lparr>EnableFallback := True\<rparr> else c2);
          c4 = (if Breadth c3 \<le> 0 then c3\<lparr>Breadth := 10\<rparr> else c3)
      in \<lparr>config = c4, adapters = Map.empty\<rparr>)"

text \<open>
  \<^verbatim>\<open>getEngineOrder\<close>: the configured fallback order, or the default engine alone.
\<close>

definition getEngineOrder :: "DefaultSearchStrategy \<Rightarrow> SearchEngine list" where
  "getEngineOrder s =
     (if length (DefaultFallbackOrder (config s)) > 0 then DefaultFallbackOrder (config s)
      else [DefaultEngine (config s)])"

text \<open>
  \<^verbatim>\<open>getOrCreateAdapter\<close>. The global registry's \<^verbatim>\<open>CreateSearchAdapter\<close> is the
  parameter \<open>create\<close>. A cached adapter is returned; otherwise the factory runs, and
  only a successful construction is stored. The locks have no effect on one thread
  of control. A failed construction returns the nil adapter: \<open>Inl\<close>.
\<close>

definition getOrCreateAdapter ::
  "(SearchEngine \<Rightarrow> error + 'a) \<Rightarrow> (SearchEngine \<rightharpoonup> 'a) \<Rightarrow> SearchEngine
     \<Rightarrow> (error + 'a) \<times> (SearchEngine \<rightharpoonup> 'a)" where
  "getOrCreateAdapter create cache engine =
     (case cache engine of
        Some adapter \<Rightarrow> (Inr adapter, cache)
      | None \<Rightarrow>
         (case create engine of
            Inl err \<Rightarrow> (Inl err, cache)
          | Inr adapter \<Rightarrow> (Inr adapter, cache(engine \<mapsto> adapter))))"

section \<open>URL deduplication\<close>

text \<open>
  The body shared by the two result loops of \<^verbatim>\<open>executeMixedSearch\<close> and
  \<^verbatim>\<open>executeFallbackSearch\<close>: an item whose non-empty URL is already in
  \<^verbatim>\<open>seenURLs\<close> is skipped; any other item is annotated, its non-empty URL is
  recorded, and it is appended to \<^verbatim>\<open>uniqueResults\<close>. The two loops differ in the
  metadata they write only, which is the parameter \<open>annotate\<close>.
\<close>

fun uniqueResults ::
  "(SearchResultItem \<Rightarrow> SearchResultItem) \<Rightarrow> SearchResultItem list \<Rightarrow> string set
     \<Rightarrow> SearchResultItem list \<times> string set" where
  "uniqueResults annotate [] seenURLs = ([], seenURLs)"
| "uniqueResults annotate (r # rs) seenURLs =
     (if URL r \<noteq> [] \<and> URL r \<in> seenURLs then uniqueResults annotate rs seenURLs
      else
        (let r' = annotate r;
             seenURLs' = (if URL r \<noteq> [] then insert (URL r) seenURLs else seenURLs);
             (rest, seenURLs'') = uniqueResults annotate rs seenURLs'
         in (r' # rest, seenURLs'')))"

text \<open>The metadata written by the fallback loop; \<open>i\<close> is the loop index.\<close>

definition annotateFallback :: "SearchEngine \<Rightarrow> nat \<Rightarrow> SearchResultItem \<Rightarrow> SearchResultItem" where
  "annotateFallback engine i r =
     r\<lparr>Metadata := (Metadata r)
          (''search_engine'' \<mapsto> MetaString engine,
           ''strategy'' \<mapsto> MetaString ''fallback'',
           ''attempt'' \<mapsto> MetaInt (int i + 1))\<rparr>"

text \<open>The metadata written by the mixed loop.\<close>

definition annotateMixed :: "SearchEngine \<Rightarrow> SearchResultItem \<Rightarrow> SearchResultItem" where
  "annotateMixed engine r =
     r\<lparr>Metadata := (Metadata r)
          (''search_engine'' \<mapsto> MetaString engine,
           ''strategy'' \<mapsto> MetaString ''mixed'')\<rparr>"

section \<open>Fallback search\<close>

text \<open>
  What a call can end in: a returned value, a returned error, or a run-time panic.
  Calling a method on the nil adapter of a failed construction panics, and so does
  reading a field of a nil response.
\<close>

datatype panic = NilAdapterCall SearchEngine | NilResponseDeref SearchEngine

datatype 'a outcome = Returned 'a | Failed error | Panicked panic

text \<open>
  A run of a strategy: the engines whose capability was invoked through a real
  adapter, in the order of the calls, what the call ended in, and the adapter cache
  afterwards.
\<close>

record ('r, 'a) run =
  invoked :: "SearchEngine list"
  ending :: "'r outcome"
  cache :: "SearchEngine \<rightharpoonup> 'a"

text \<open>
  The success branch of \<^verbatim>\<open>executeFallbackSearch\<close>: a non-nil result slice is
  deduplicated, then cut to the breadth when the breadth is positive, and the total
  count is set; a nil slice leaves the response as the adapter returned it. The
  slice built by \<^verbatim>\<open>append\<close> is nil when nothing was appended.
\<close>

definition sliceOf :: "'a list \<Rightarrow> 'a list option" where
  "sliceOf xs = (if xs = [] then None else Some xs)"

definition fallbackSuccess ::
  "SearchStrategyConfig \<Rightarrow> SearchEngine \<Rightarrow> nat \<Rightarrow> string set \<Rightarrow> SearchResponse \<Rightarrow> SearchResponse" where
  "fallbackSuccess cfg engine i seenURLs response =
     (case Results response of
        None \<Rightarrow> response
      | Some results \<Rightarrow>
          (let (unique, seenURLs') = uniqueResults (annotateFallback engine i) results seenURLs;
               unique' = (if Breadth cfg > 0 \<and> int (length unique) > Breadth cfg
                          then take (nat (Breadth cfg)) unique else unique)
           in response\<lparr>Results := sliceOf unique', TotalCount := int (length unique')\<rparr>))"

text \<open>
  The loop of \<^verbatim>\<open>executeFallbackSearch\<close> from index \<open>i\<close> on; \<open>n\<close> is
  \<^verbatim>\<open>len(engines)\<close>. The set \<^verbatim>\<open>seenURLs\<close> is created empty before the loop
  and is written in the success branch only, which returns: it is empty whenever
  that branch starts. When the adapter cannot be created, the loop continues with
  the next engine only if fail-fast is set or this is the last engine; otherwise
  control falls through to \<^verbatim>\<open>adapter.Search\<close> on the nil adapter. When the
  call fails, the loop ends if fallback is disabled or this is the last engine.
\<close>

fun fallbackLoop ::
  "(SearchEngine \<Rightarrow> error + SearchAdapter) \<Rightarrow> SearchStrategyConfig \<Rightarrow> SearchRequest \<Rightarrow> nat
     \<Rightarrow> nat \<Rightarrow> SearchEngine list \<Rightarrow> (SearchEngine \<rightharpoonup> SearchAdapter) \<Rightarrow> error option
     \<Rightarrow> SearchEngine list \<Rightarrow> (SearchResponse, SearchAdapter) run" where
  "fallbackLoop create cfg request n i [] cached lastErr called =
     \<lparr>invoked = called, ending = Failed (AllEnginesFailed lastErr), cache = cached\<rparr>"
| "fallbackLoop create cfg request n i (engine # rest) cached lastErr called =
     (case getOrCreateAdapter create cached engine of
        (Inl err, cached') \<Rightarrow>
          (if FailFast cfg \<or> int i = int n - 1
           then fallbackLoop create cfg request n (i + 1) rest cached'
                  (Some (CreateAdapterFailed engine err)) called
           else \<lparr>invoked = called, ending = Panicked (NilAdapterCall engine), cache = cached'\<rparr>)
      | (Inr adapter, cached') \<Rightarrow>
          (case adapter request of
             Inr None \<Rightarrow>
               \<lparr>invoked = called @ [engine], ending = Panicked (NilResponseDeref engine),
                cache = cached'\<rparr>
           | Inr (Some response) \<Rightarrow>
               \<lparr>invoked = called @ [engine],
                ending = Returned (fallbackSuccess cfg engine i {} response),
                cache = cached'\<rparr>
           | Inl err \<Rightarrow>
               (if \<not> EnableFallback cfg \<or> int i = int n - 1
                then \<lparr>invoked = called @ [engine],
                      ending = Failed (AllEnginesFailed (Some (EngineSearchFailed engine err))),
                      cache = cached'\<rparr>
                else fallbackLoop create cfg request n (i + 1) rest cached'
                       (Some (EngineSearchFailed engine err)) (called @ [engine]))))"

definition executeFallbackSearch ::
  "(SearchEngine \<Rightarrow> error + SearchAdapter) \<Rightarrow> DefaultSearchStrategy \<Rightarrow> SearchRequest
     \<Rightarrow> (SearchResponse, SearchAdapter) run" where
  "executeFallbackSearch create s request =
     (let engines = getEngineOrder s
      in fallbackLoop create (config s) request (length engines) 0 engines (adapters s) None [])"

section \<open>Mixed search\<close>

text \<open>
  What one goroutine of \<^verbatim>\<open>executeMixedSearch\<close> sends on the result channel.
\<close>

record engineResult =
  engine :: SearchEngine
  response :: "SearchResponse option"
  err :: "error option"

text \<open>
  The body of one goroutine, for engine \<open>eng\<close>: the adapter is obtained, and the
  search runs only when that succeeded. Returned with the result: the engines whose
  \<^verbatim>\<open>Search\<close> was called (none or \<open>eng\<close>), and the cache.
\<close>

definition mixedWorker ::
  "(SearchEngine \<Rightarrow> error + SearchAdapter) \<Rightarrow> SearchRequest \<Rightarrow> SearchEngine
     \<Rightarrow> (SearchEngine \<rightharpoonup> SearchAdapter)
     \<Rightarrow> engineResult \<times> SearchEngine list \<times> (SearchEngine \<rightharpoonup> SearchAdapter)" where
  "mixedWorker create request eng cached =
     (case getOrCreateAdapter create cached eng of
        (Inl e, cached') \<Rightarrow>
          (\<lparr>engine = eng, response = None, err = Some (CreateAdapterFailed eng e)\<rparr>, [], cached')
      | (Inr adapter, cached') \<Rightarrow>
          (case adapter request of
             Inl e \<Rightarrow> (\<lparr>engine = eng, response = None, err = Some e\<rparr>, [eng], cached')
           | Inr resp \<Rightarrow> (\<lparr>engine = eng, response = resp, err = None\<rparr>, [eng], cached')))"

text \<open>
  The goroutines in the order in which they deliver their results. Every goroutine
  works on its own engine; the cache they share is written under the lock.
\<close>

fun mixedWorkers ::
  "(SearchEngine \<Rightarrow> error + SearchAdapter) \<Rightarrow> SearchRequest \<Rightarrow> SearchEngine list
     \<Rightarrow> (SearchEngine \<rightharpoonup> SearchAdapter)
     \<Rightarrow> engineResult list \<times> SearchEngine list \<times> (SearchEngine \<rightharpoonup> SearchAdapter)" where
  "mixedWorkers create request [] cached = ([], [], cached)"
| "mixedWorkers create request (eng # engs) cached =
     (let (r, called, cached') = mixedWorker create request eng cached;
          (rs, called', cached'') = mixedWorkers create request engs cached'
      in (r # rs, called @ called', cached''))"

text \<open>The accumulators of the collecting loop.\<close>

record mixedAcc =
  allResults :: "SearchResultItem list"
  errors :: "error list"
  usedEngines :: "string \<rightharpoonup> int"
  seenURLs :: "string set"

text \<open>
  The number of leading results kept from one engine: the breadth, or all of them
  when the breadth is not positive or exceeds their number.
\<close>

definition maxResults :: "SearchStrategyConfig \<Rightarrow> 'a list \<Rightarrow> int" where
  "maxResults cfg results =
     (if Breadth cfg \<le> 0 then int (length results)
      else if Breadth cfg > int (length results) then int (length results)
      else Breadth cfg)"

text \<open>One iteration of \<^verbatim>\<open>for result := range resultChan\<close>.\<close>

definition collectOne :: "SearchStrategyConfig \<Rightarrow> engineResult \<Rightarrow> mixedAcc \<Rightarrow> mixedAcc" where
  "collectOne cfg result acc =
     (case err result of
        Some e \<Rightarrow> acc\<lparr>errors := errors acc @ [EngineFailed (engine result) e]\<rparr>
      | None \<Rightarrow>
         (case response result of
            None \<Rightarrow> acc
          | Some resp \<Rightarrow>
             (let results = resultItems resp
              in if length results > 0 then
                   (let engineResults = take (nat (maxResults cfg results)) results;
                        (unique, seen') =
                           uniqueResults (annotateMixed (engine result)) engineResults (seenURLs acc)
                    in acc\<lparr>allResults := allResults acc @ unique,
                           usedEngines := (usedEngines acc)(engine result \<mapsto> int (length unique)),
                           seenURLs := seen'\<rparr>)
                 else acc)))"

fun collectMixed :: "SearchStrategyConfig \<Rightarrow> engineResult list \<Rightarrow> mixedAcc \<Rightarrow> mixedAcc" where
  "collectMixed cfg [] acc = acc"
| "collectMixed cfg (result # rest) acc = collectMixed cfg rest (collectOne cfg result acc)"

definition emptyAcc :: mixedAcc where
  "emptyAcc = \<lparr>allResults = [], errors = [], usedEngines = Map.empty, seenURLs = {}\<rparr>"

text \<open>
  \<^verbatim>\<open>executeMixedSearch\<close>. The parameter \<open>completion\<close> is the order in which the
  goroutines finish, a rearrangement of the configured engines chosen by the
  scheduler; the channel is read until all of them have delivered. No engine's
  capability is called through a nil adapter here, so a mixed call never panics.
\<close>

definition executeMixedSearch ::
  "(SearchEngine \<Rightarrow> error + SearchAdapter) \<Rightarrow> (SearchEngine list \<Rightarrow> SearchEngine list)
     \<Rightarrow> DefaultSearchStrategy \<Rightarrow> SearchRequest \<Rightarrow> (SearchResponse, SearchAdapter) run" where
  "executeMixedSearch create completion s request =
     (let engines = MixedEngines (config s)
      in if length engines = 0
         then \<lparr>invoked = [], ending = Failed NoMixedEnginesConfigured, cache = adapters s\<rparr>
         else
           (let (delivered, called, cached') =
                   mixedWorkers create request (completion engines) (adapters s);
                acc = collectMixed (config s) delivered emptyAcc
            in if length (allResults acc) = 0
               then (if length (errors acc) > 0
                     then \<lparr>invoked = called, ending = Failed (AllMixedFailed (errors acc)),
                           cache = cached'\<rparr>
                     else \<lparr>invoked = called, ending = Failed NoMixedResults, cache = cached'\<rparr>)
               else \<lparr>invoked = called,
                     ending = Returned \<lparr>Query = ReqQuery request, Results = Some (allResults acc),
                                        TotalCount = int (length (allResults acc)), TimeTaken = 0\<rparr>,
                     cache = cached'\<rparr>))"

text \<open>\<^verbatim>\<open>Execute\<close>: mixed search when mixed engines are configured, else fallback.\<close>

definition Execute ::
  "(SearchEngine \<Rightarrow> error + SearchAdapter) \<Rightarrow> (SearchEngine list \<Rightarrow> SearchEngine list)
     \<Rightarrow> DefaultSearchStrategy \<Rightarrow> SearchRequest \<Rightarrow> (SearchResponse, SearchAdapter) run" where
  "Execute create completion s request =
     (if length (MixedEngines (config s)) > 0 then executeMixedSearch create completion s request
      else executeFallbackSearch create s request)"

section \<open>Web scraping strategy\<close>

text \<open>
  \<^verbatim>\<open>adapters/web/strategy.go\<close>. The fields of \<^verbatim>\<open>WebContent\<close>,
  \<^verbatim>\<open>Link\<close> and \<^verbatim>\<open>Image\<close> carry a prefix here, since \<open>URL\<close> and
  \<open>Title\<close> already name fields of a search result.
\<close>

type_synonym WebScraper = string

record Link =
  LinkURL :: string
  LinkText :: string

record Image =
  ImageURL :: string
  ImageTitle :: string

record WebContent =
  WebURL :: string
  WebTitle :: string
  Content :: string
  Links :: "Link list option"
  Images :: "Image list option"

record ScrapeOptions =
  Format :: string
  Timeout :: int
  ImagesSummary :: bool
  LinksSummary :: bool

text \<open>A web adapter is its two methods.\<close>

record WebAdapter =
  Scrape :: "string \<Rightarrow> ScrapeOptions \<Rightarrow> error + WebContent option"
  ScrapeMultiple :: "string list \<Rightarrow> ScrapeOptions \<Rightarrow> error + WebContent option list"

record WebStrategyConfig =
  DefaultScraper :: WebScraper
  WebDefaultFallbackOrder :: "WebScraper list"
  WebEnableFallback :: bool
  WebFailFast :: bool

record DefaultWebStrategy =
  webConfig :: WebStrategyConfig
  webAdapters :: "WebScraper \<rightharpoonup> WebAdapter"

definition zeroWebStrategyConfig :: WebStrategyConfig where
  "zeroWebStrategyConfig =
     \<lparr>DefaultScraper = [], WebDefaultFallbackOrder = [], WebEnableFallback = False,
      WebFailFast = False\<rparr>"

text \<open>\<^verbatim>\<open>NewDefaultWebStrategy\<close>; the argument is \<open>None\<close> for a nil pointer.\<close>

definition NewDefaultWebStrategy :: "WebStrategyConfig option \<Rightarrow> DefaultWebStrategy" where
  "NewDefaultWebStrategy cfg0 =
     (let c0 = (case cfg0 of None \<Rightarrow> zeroWebStrategyConfig | Some c \<Rightarrow> c);
          c1 = (if DefaultScraper c0 = [] then c0\<lparr>DefaultScraper := ''jina''\<rparr> else c0);
          c2 = (if length (WebDefaultFallbackOrder c1) = 0
                then c1\<lparr>WebDefaultFallbackOrder := [''jina'', ''firecrawl'']\<rparr> else c1);
          c3 = (if \<not> WebEnableFallback c2 then c2\<lparr>WebEnableFallback := True\<rparr> else c2)
      in \<lparr>webConfig = c3, webAdapters = Map.empty\<rparr>)"

definition getScraperOrder :: "DefaultWebStrategy \<Rightarrow> WebScraper list" where
  "getScraperOrder s =
     (if length (WebDefaultFallbackOrder (webConfig s)) > 0 then WebDefaultFallbackOrder (webConfig s)
      else [DefaultScraper (webConfig s)])"

text \<open>
  The success branch of the web \<^verbatim>\<open>Execute\<close>: nil link and image slices of a
  non-nil result become empty slices.
\<close>

definition scrapeSuccess :: "WebContent option \<Rightarrow> WebContent option" where
  "scrapeSuccess result =
     (case result of
        None \<Rightarrow> None
      | Some r \<Rightarrow>
          (let r1 = (if Images r = None then r\<lparr>Images := Some []\<rparr> else r);
               r2 = (if Links r1 = None then r1\<lparr>Links := Some []\<rparr> else r1)
           in Some r2))"

text \<open>
  The loop of the web \<^verbatim>\<open>Execute\<close> from index \<open>i\<close> on, for one URL. It has the
  shape of the search fallback loop.
\<close>

fun scrapeLoop ::
  "(WebScraper \<Rightarrow> error + WebAdapter) \<Rightarrow> WebStrategyConfig \<Rightarrow> string \<Rightarrow> ScrapeOptions \<Rightarrow> nat
     \<Rightarrow> nat \<Rightarrow> WebScraper list \<Rightarrow> (WebScraper \<rightharpoonup> WebAdapter) \<Rightarrow> error option
     \<Rightarrow> WebScraper list \<Rightarrow> (WebContent option, WebAdapter) run" where
  "scrapeLoop create cfg url options n i [] cached lastErr called =
     \<lparr>invoked = called, ending = Failed (AllScrapersFailed lastErr), cache = cached\<rparr>"
| "scrapeLoop create cfg url options n i (scraper # rest) cached lastErr called =
     (case getOrCreateAdapter create cached scraper of
        (Inl e, cached') \<Rightarrow>
          (if WebFailFast cfg \<or> int i = int n - 1
           then scrapeLoop create cfg url options n (i + 1) rest cached'
                  (Some (CreateWebAdapterFailed scraper e)) called
           else \<lparr>invoked = called, ending = Panicked (NilAdapterCall scraper), cache = cached'\<rparr>)
      | (Inr adapter, cached') \<Rightarrow>
          (case Scrape adapter url options of
             Inr result \<Rightarrow>
               \<lparr>invoked = called @ [scraper], ending = Returned (scrapeSuccess result),
                cache = cached'\<rparr>
           | Inl e \<Rightarrow>
               (if \<not> WebEnableFallback cfg \<or> int i = int n - 1
                then \<lparr>invoked = called @ [scraper],
                      ending = Failed (AllScrapersFailed (Some (ScraperFailed scraper e))),
                      cache = cached'\<rparr>
                else scrapeLoop create cfg url options n (i + 1) rest cached'
                       (Some (ScraperFailed scraper e)) (called @ [scraper]))))"

definition WebExecute ::
  "(WebScraper \<Rightarrow> error + WebAdapter) \<Rightarrow> DefaultWebStrategy \<Rightarrow> string \<Rightarrow> ScrapeOptions
     \<Rightarrow> (WebContent option, WebAdapter) run" where
  "WebExecute create s url options =
     (let scrapers = getScraperOrder s
      in scrapeLoop create (webConfig s) url options (length scrapers) 0 scrapers (webAdapters s)
           None [])"

text \<open>The loop of \<^verbatim>\<open>ExecuteMultiple\<close> from index \<open>i\<close> on, for a batch of URLs.\<close>

fun scrapeMultipleLoop ::
  "(WebScraper \<Rightarrow> error + WebAdapter) \<Rightarrow> WebStrategyConfig \<Rightarrow> string list \<Rightarrow> ScrapeOptions \<Rightarrow> nat
     \<Rightarrow> nat \<Rightarrow> WebScraper list \<Rightarrow> (WebScraper \<rightharpoonup> WebAdapter) \<Rightarrow> error option
     \<Rightarrow> WebScraper list \<Rightarrow> (WebContent option list, WebAdapter) run" where
  "scrapeMultipleLoop create cfg urls options n i [] cached lastErr called =
     \<lparr>invoked = called, ending = Failed (AllScrapersFailed lastErr), cache = cached\<rparr>"
| "scrapeMultipleLoop create cfg urls options n i (scraper # rest) cached lastErr called =
     (case getOrCreateAdapter create cached scraper of
        (Inl e, cached') \<Rightarrow>
          (if WebFailFast cfg \<or> int i = int n - 1
           then scrapeMultipleLoop create cfg urls options n (i + 1) rest cached'
                  (Some (CreateWebAdapterFailed scraper e)) called
           else \<lparr>invoked = called, ending = Panicked (NilAdapterCall scraper), cache = cached'\<rparr>)
      | (Inr adapter, cached') \<Rightarrow>
          (case ScrapeMultiple adapter urls options of
             Inr results \<Rightarrow>
               \<lparr>invoked = called @ [scraper], ending = Returned results, cache = cached'\<rparr>
           | Inl e \<Rightarrow>
               (if \<not> WebEnableFallback cfg \<or> int i = int n - 1
                then \<lparr>invoked = called @ [scraper],
                      ending = Failed (AllScrapersFailed (Some (ScraperMultipleFailed scraper e))),
                      cache = cached'\<rparr>
                else scrapeMultipleLoop create cfg urls options n (i + 1) rest cached'
                       (Some (ScraperMultipleFailed scraper e)) (called @ [scraper]))))"

definition WebExecuteMultiple ::
  "(WebScraper \<Rightarrow> error + WebAdapter) \<Rightarrow> DefaultWebStrategy \<Rightarrow> string list \<Rightarrow> ScrapeOptions
     \<Rightarrow> (WebContent option list, WebAdapter) run" where
  "WebExecuteMultiple create s urls options =
     (let scrapers = getScraperOrder s
      in scrapeMultipleLoop create (webConfig s) urls options (length scrapers) 0 scrapers
           (webAdapters s) None [])"

section \<open>Retrieval strategy layer: vocabulary of the properties\<close>

text \<open>
  The definitions of this section state what the specification says; none of them
  is part of the code. No two items of a result share a non-empty URL:
\<close>

definition noDuplicateURLs :: "SearchResultItem list \<Rightarrow> bool" where
  "noDuplicateURLs items = distinct (filter (\<lambda>u. u \<noteq> []) (map URL items))"

text \<open>
  Global URL deduplication in which the first occurrence wins, as the specification
  words it: the first item is kept, every later item with the same non-empty URL is
  dropped, and so on for what is left. Items without a URL are all kept.
\<close>

function firstSeen :: "SearchResultItem list \<Rightarrow> SearchResultItem list" where
  "firstSeen [] = []"
| "firstSeen (r # rs) = r # firstSeen (filter (\<lambda>r'. URL r' = [] \<or> URL r' \<noteq> URL r) rs)"
  by pat_completeness auto
termination
  by (relation "measure length") (auto simp: less_Suc_eq_le)

text \<open>The breadth cap: at most breadth-many leading results, when the breadth is positive.\<close>

definition breadthCap :: "SearchStrategyConfig \<Rightarrow> 'a list \<Rightarrow> 'a list" where
  "breadthCap cfg xs = (if Breadth cfg > 0 then take (nat (Breadth cfg)) xs else xs)"

text \<open>
  What one delivered engine result contributes to a mixed call before deduplication:
  nothing when the engine failed, else its capped results, annotated with the engine.
\<close>

definition cappedResults :: "SearchStrategyConfig \<Rightarrow> engineResult \<Rightarrow> SearchResultItem list" where
  "cappedResults cfg result =
     (case err result of
        Some e \<Rightarrow> []
      | None \<Rightarrow>
         (case response result of
            None \<Rightarrow> []
          | Some resp \<Rightarrow> map (annotateMixed (engine result)) (breadthCap cfg (resultItems resp))))"

text \<open>The collected engine results of a mixed call, in the order of delivery.\<close>

definition collected :: "SearchStrategyConfig \<Rightarrow> engineResult list \<Rightarrow> SearchResultItem list" where
  "collected cfg delivered = concat (map (cappedResults cfg) delivered)"

text \<open>The per-engine errors of a mixed call, in the order of delivery.\<close>

definition engineErrors :: "engineResult list \<Rightarrow> error list" where
  "engineErrors delivered =
     concat (map (\<lambda>r. case err r of None \<Rightarrow> [] | Some e \<Rightarrow> [EngineFailed (engine r) e]) delivered)"

text \<open>What the goroutine of an engine delivers when the strategy has no cached adapter.\<close>

definition workerResult ::
  "(SearchEngine \<Rightarrow> error + SearchAdapter) \<Rightarrow> SearchRequest \<Rightarrow> SearchEngine \<Rightarrow> engineResult" where
  "workerResult create request eng = fst (mixedWorker create request eng Map.empty)"

text \<open>A cache holds only adapters that the factory builds.\<close>

definition consistent :: "(SearchEngine \<Rightarrow> error + 'a) \<Rightarrow> (SearchEngine \<rightharpoonup> 'a) \<Rightarrow> bool" where
  "consistent create cached = (\<forall>e. case cached e of None \<Rightarrow> True | Some a \<Rightarrow> create e = Inr a)"

subsection \<open>Example inputs\<close>

text \<open>
  Concrete engines for the examples: \<open>''a''\<close> and \<open>''b''\<close> answer with an error,
  \<open>''c''\<close> and \<open>''d''\<close> answer with results that share URLs, and the factory
  knows no other engine.
\<close>

definition exampleItem :: "string \<Rightarrow> string \<Rightarrow> SearchResultItem" where
  "exampleItem t u =
     \<lparr>Title = t, URL = u, Description = [], Link = [], Snippet = [], Rank = 0,
      PublishDate = [], FileType = [], Metadata = Map.empty\<rparr>"

definition exampleResponse :: "SearchResultItem list \<Rightarrow> SearchResponse" where
  "exampleResponse items =
     \<lparr>Query = ''q'', Results = Some items, TotalCount = int (length items), TimeTaken = 0\<rparr>"

definition exampleRequest :: SearchRequest where
  "exampleRequest = \<lparr>ReqQuery = ''q'', Num = 0\<rparr>"

definition failingAdapter :: SearchAdapter where
  "failingAdapter request = Inl (External ''timeout'')"

definition adapterC :: SearchAdapter where
  "adapterC request =
     Inr (Some (exampleResponse
       [exampleItem ''1'' ''u1'', exampleItem ''2'' ''u2'', exampleItem ''3'' ''u1'',
        exampleItem ''4'' ''u3'', exampleItem ''5'' ''u4'']))"

definition adapterD :: SearchAdapter where
  "adapterD request =
     Inr (Some (exampleResponse
       [exampleItem ''6'' ''u2'', exampleItem ''7'' ''u5'', exampleItem ''8'' ''u6'',
        exampleItem ''9'' ''u7'', exampleItem ''10'' ''u8'']))"

definition exampleCreate :: "SearchEngine \<Rightarrow> error + SearchAdapter" where
  "exampleCreate e =
     (if e = ''a'' then Inr failingAdapter
      else if e = ''b'' then Inr failingAdapter
      else if e = ''c'' then Inr adapterC
      else if e = ''d'' then Inr adapterD
      else Inl (External ''unregistered search engine''))"

definition exampleConfig :: "SearchEngine list \<Rightarrow> SearchEngine list \<Rightarrow> bool \<Rightarrow> SearchStrategyConfig" where
  "exampleConfig order mixed failFast =
     \<lparr>Breadth = 3, MixedEngines = mixed, DefaultEngine = [], DefaultFallbackOrder = order,
      EnableFallback = False, FailFast = failFast\<rparr>"

text \<open>Web adapters for the examples, and a web factory that knows \<open>''jina''\<close> only.\<close>

definition exampleWebAdapter :: WebAdapter where
  "exampleWebAdapter =
     \<lparr>Scrape = (\<lambda>url options. Inr None), ScrapeMultiple = (\<lambda>urls options. Inr [])\<rparr>"

definition exampleWebCreate :: "WebScraper \<Rightarrow> error + WebAdapter" where
  "exampleWebCreate e =
     (if e = ''jina'' then Inr exampleWebAdapter else Inl (External ''unregistered web scraper''))"

definition exampleOptions :: ScrapeOptions where
  "exampleOptions = \<lparr>Format = ''text'', Timeout = 30, ImagesSummary = True, LinksSummary = True\<rparr>"

section \<open>Research agent: strings\<close>

text \<open>
  The agent (\<^verbatim>\<open>core/agent\<close>) works on texts with three functions of Go's
  \<^verbatim>\<open>strings\<close> package. They are modelled on ASCII text, byte by byte:
  \<^verbatim>\<open>ToLower\<close> maps the letters A to Z, \<^verbatim>\<open>Fields\<close> splits around runs of the
  six ASCII white-space characters, \<^verbatim>\<open>Contains\<close> looks for a substring.
\<close>

definition lowerChar :: "char \<Rightarrow> char" where
  "lowerChar c =
     (case map_of (zip ''ABCDEFGHIJKLMNOPQRSTUVWXYZ'' ''abcdefghijklmnopqrstuvwxyz'') c of
        Some l \<Rightarrow> l
      | None \<Rightarrow> c)"

definition ToLower :: "string \<Rightarrow> string" where
  "ToLower s = map lowerChar s"

definition isSpace :: "char \<Rightarrow> bool" where
  "isSpace c = (c \<in> {CHR 0x09, CHR 0x0A, CHR 0x0B, CHR 0x0C, CHR 0x0D, CHR '' ''})"

text \<open>\<open>cur\<close> is the field being read.\<close>

fun fieldsFrom :: "string \<Rightarrow> string \<Rightarrow> string list" where
  "fieldsFrom [] cur = (if cur = [] then [] else [cur])"
| "fieldsFrom (c # cs) cur =
     (if isSpace c then (if cur = [] then fieldsFrom cs [] else cur # fieldsFrom cs [])
      else fieldsFrom cs (cur @ [c]))"

definition Fields :: "string \<Rightarrow> string list" where
  "Fields s = fieldsFrom s []"

fun Contains :: "string \<Rightarrow> string \<Rightarrow> bool" where
  "Contains [] substr = (substr = [])"
| "Contains (c # cs) substr = (take (length substr) (c # cs) = substr \<or> Contains cs substr)"

text \<open>The decimal text of an integer, as \<^verbatim>\<open>%d\<close> prints it.\<close>

fun digitsOf :: "nat \<Rightarrow> string" where
  "digitsOf n =
     (if n < 10 then [''0123456789'' ! n]
      else digitsOf (n div 10) @ [''0123456789'' ! (n mod 10)])"

declare digitsOf.simps [simp del]

definition itoa :: "int \<Rightarrow> string" where
  "itoa i = (if i < 0 then CHR ''-'' # digitsOf (nat (- i)) else digitsOf (nat i))"

section \<open>Research agent: constants and question deduplication\<close>

text \<open>\<^verbatim>\<open>core/agent/constants.go\<close>.\<close>

definition StageThinking :: string where "StageThinking = ''thinking''"

definition QuestionStatusPending :: string where "QuestionStatusPending = ''pending''"
definition QuestionStatusCompleted :: string where "QuestionStatusCompleted = ''completed''"

definition QuestionIDPrefix :: string where "QuestionIDPrefix = ''q_''"
definition SimilarityThreshold :: real where "SimilarityThreshold = 0.5"
definition MinWordLength :: nat where "MinWordLength = 2"

text \<open>
  The two inner loops of \<^verbatim>\<open>isSimilarQuestionResearched\<close>: the number of words of
  the new question that are longer than \<^verbatim>\<open>MinWordLength\<close> and equal to some word
  of the researched question. The inner loop stops at the first equal word, so a
  word counts once for each of its occurrences in the new question.
\<close>

fun commonWords :: "string list \<Rightarrow> string list \<Rightarrow> nat" where
  "commonWords [] researchedWords = 0"
| "commonWords (newWord # newWords) researchedWords =
     (if length newWord > MinWordLength \<and> newWord \<in> set researchedWords
      then commonWords newWords researchedWords + 1
      else commonWords newWords researchedWords)"

text \<open>
  The test of one researched question. The code divides two \<^verbatim>\<open>float64\<close>
  values; the quotient of two word counts is compared with 0.5 here as a real
  number, which gives the same answer for every count below \<open>2 ^ 53\<close>, since
  0.5 is a float and the rounded quotient of two such counts lies on the same side
  of it as the exact one.
\<close>

definition similarTo :: "string \<Rightarrow> string \<Rightarrow> bool" where
  "similarTo newQuestion researchedQuestion =
     (let newWords = Fields (ToLower newQuestion);
          researchedWords = Fields (ToLower researchedQuestion);
          common = commonWords newWords researchedWords
      in length newWords > 0 \<and> real common / real (length newWords) > SimilarityThreshold)"

text \<open>
  \<^verbatim>\<open>isSimilarQuestionResearched\<close>. The set of researched questions is a Go map
  whose keys are visited in an order chosen at run time; the list is its keys in
  the order of the visit.
\<close>

fun isSimilarQuestionResearched :: "string \<Rightarrow> string list \<Rightarrow> bool" where
  "isSimilarQuestionResearched newQuestion [] = False"
| "isSimilarQuestionResearched newQuestion (researchedQuestion # rest) =
     (if similarTo newQuestion researchedQuestion then True
      else isSimilarQuestionResearched newQuestion rest)"

section \<open>Research agent: step budget\<close>


section \<open>Research agent: data model\<close>

text \<open>
  \<^verbatim>\<open>core/agent\<close>. Go \<^verbatim>\<open>int\<close> values are modelled as \<^typ>\<open>int\<close>: counters
  and budgets stay far from the machine bounds. A field whose name is already taken
  by a field of another struct carries a prefix (\<open>ThoughtContent\<close>,
  \<open>StateIsComplete\<close>, \<open>CfgMaxIterations\<close>, and the fields of the tool
  responses).

  \<^verbatim>\<open>StreamingThought\<close>, without its time stamp (the wall clock is not modelled).
\<close>

record StreamingThought =
  Stage :: string
  ThoughtContent :: string
  Action :: string
  IsComplete :: bool
  Sources :: "string list"

text \<open>
  A thought as the nodes build it: a struct literal that names the stage, the content
  and the action and leaves the other fields at their zero values.
\<close>

definition thought :: "string \<Rightarrow> string \<Rightarrow> string \<Rightarrow> StreamingThought" where
  "thought stage content action =
     \<lparr>Stage = stage, ThoughtContent = content, Action = action, IsComplete = False, Sources = []\<rparr>"

text \<open>The responses of the two tools, as far as the agent reads them.\<close>

record ToolSearchResponse =
  ToolSuccess :: bool
  ToolQuery :: string
  ToolEngine :: string
  ToolResults :: "SearchResultItem list"

record WebScrapeResponse =
  ScrapeSuccess :: bool
  ScrapeMessage :: string
  ScrapeResults :: "WebContent list"
  ScrapeError :: string

record ResearchQuestion =
  ID :: string
  Question :: string
  Status :: string
  SearchResults :: "ToolSearchResponse list"
  WebContents :: "WebScrapeResponse list"
  Analysis :: string
  Priority :: int

text \<open>
  \<^verbatim>\<open>StreamingResearchState\<close>. The pointer \<^verbatim>\<open>CurrentResearchQ\<close> aliases an
  element of \<^verbatim>\<open>ResearchQuestions\<close>: it is the index of that element, and
  \<open>None\<close> when nil. \<^verbatim>\<open>ResearchedQuestions\<close> is the key set of the Go map, as a
  list without repetition. \<^verbatim>\<open>ThoughtChannel\<close> says whether the state carries
  a channel; the channel's content is part of \<open>world\<close> below.
\<close>

record StreamingResearchState =
  OriginalQuery :: string
  CurrentIteration :: int
  MaxIterations :: int
  ResearchQuestions :: "ResearchQuestion list"
  ResearchedQuestions :: "string list"
  CurrentResearchQ :: "nat option"
  AccumulatedInfo :: string
  FinalAnswer :: string
  StateIsComplete :: bool
  CompletedQuestions :: int
  ThoughtChannel :: bool

record ResearchConfig =
  CfgMaxIterations :: int
  MaxSteps :: int
  MinQuestions :: int
  MaxContentLength :: int
  MaxSingleContent :: int
  ChannelBuffer :: int

text \<open>
  Errors of the agent: an error of a collaborator, or an \<^verbatim>\<open>fmt.Errorf\<close> wrapper
  with its message and the error it wraps.
\<close>

datatype agent_error = Leaf string | Wrap string agent_error


text \<open>
  A prompt is a template of \<^verbatim>\<open>prompts.go\<close> and the arguments it is formatted
  with; the wording of the templates is fixed text.
\<close>

datatype template =
    GenerateQuestionsPromptTemplate
  | AnalyzeQuestionPromptTemplate
  | SynthesizeFinalAnswerPromptTemplate
  | ShouldSynthesizeEarlyPromptTemplate

datatype prompt = Sprintf template "string list"

text \<open>
  The collaborators of a run. Each call of the chat model and of a tool is
  numbered, so that the same request may be answered differently at different
  times. \<open>chatStream\<close> gives the chunks received before the stream ends, by its end
  or by an error; every stream is taken to end. The JSON decoders stand for
  \<^verbatim>\<open>json.Unmarshal\<close> on the three payloads. \<open>channelFull k\<close> says whether the
  caller's channel has no room at the \<open>k\<close>-th non-blocking send.
\<close>

record env =
  chatGenerate :: "nat \<Rightarrow> prompt \<Rightarrow> agent_error + string"
  chatStream :: "nat \<Rightarrow> prompt \<Rightarrow> agent_error + string list"
  decodeQuestions :: "string \<Rightarrow> agent_error + (string \<times> int) list"
  searchTool :: "nat \<Rightarrow> string \<Rightarrow> agent_error + string"
  decodeSearchResponse :: "string \<Rightarrow> agent_error + ToolSearchResponse"
  webTool :: "nat \<Rightarrow> string list \<Rightarrow> agent_error + string"
  decodeWebResponse :: "string \<Rightarrow> agent_error + WebScrapeResponse"
  channelFull :: "nat \<Rightarrow> bool"

text \<open>
  What a run has done to the outside so far: the numbers of chat and tool calls
  made, the number of non-blocking sends tried, and the thoughts that were put on
  the channel, oldest first.
\<close>

record world =
  chatCalls :: nat
  toolCalls :: nat
  sends :: nat
  channel :: "StreamingThought list"

text \<open>
  \<^verbatim>\<open>sendThought\<close>: a non-blocking send; a thought that finds the channel full is
  dropped, and nothing is sent for a state without a channel.
\<close>

definition sendThought :: "env \<Rightarrow> StreamingResearchState \<Rightarrow> StreamingThought \<Rightarrow> world \<Rightarrow> world" where
  "sendThought e state t w =
     (if ThoughtChannel state then
        (if channelFull e (sends w) then w\<lparr>sends := sends w + 1\<rparr>
         else w\<lparr>sends := sends w + 1, channel := channel w @ [t]\<rparr>)
      else w)"

text \<open>A call of \<^verbatim>\<open>chatModel.Generate\<close> with one user message.\<close>

definition Generate :: "env \<Rightarrow> prompt \<Rightarrow> world \<Rightarrow> (agent_error + string) \<times> world" where
  "Generate e p w = (chatGenerate e (chatCalls w) p, w\<lparr>chatCalls := chatCalls w + 1\<rparr>)"

text \<open>The nodes of the workflow graph.\<close>

datatype node =
    NodeGenerateQuestions
  | NodeSelectQuestion
  | NodeSearchQuestion
  | NodeScrapeWebContent
  | NodeAnalyzeQuestion
  | NodeSynthesizeFinalAnswer
  | NodeIncrementIteration

section \<open>Research agent: the completion check\<close>

text \<open>
  The text handed to the sufficiency judgment: one line for each completed question
  with a non-empty analysis.
\<close>

fun completedContent :: "ResearchQuestion list \<Rightarrow> string" where
  "completedContent [] = []"
| "completedContent (q # qs) =
     (if Status q = QuestionStatusCompleted \<and> Analysis q \<noteq> []
      then ''- '' @ Question q @ '': '' @ Analysis q @ [CHR 0x0A] @ completedContent qs
      else completedContent qs)"

definition hasPendingQuestions :: "ResearchQuestion list \<Rightarrow> bool" where
  "hasPendingQuestions qs = list_ex (\<lambda>q. Status q = QuestionStatusPending) qs"

text \<open>
  The steps of \<^verbatim>\<open>checkCompletionCondition\<close> after its opening thought. The
  judgment of the chat model is asked for only when the iteration budget is not used
  up and a question has been completed; an error of the model and a reply without
  \<^verbatim>\<open>true\<close> both lead on to the test for pending questions.
\<close>

definition judgeSufficient ::
  "env \<Rightarrow> StreamingResearchState \<Rightarrow> world \<Rightarrow> bool \<times> world" where
  "judgeSufficient e state w =
     (let p = Sprintf ShouldSynthesizeEarlyPromptTemplate
                [OriginalQuery state, completedContent (ResearchQuestions state)];
          (response, w1) = Generate e p w
      in (case response of
            Inl error \<Rightarrow> (False, w1)
          | Inr content \<Rightarrow> (Contains (ToLower content) ''true'', w1)))"

definition afterJudgment ::
  "env \<Rightarrow> ResearchConfig \<Rightarrow> StreamingResearchState \<Rightarrow> world \<Rightarrow> node \<times> world" where
  "afterJudgment e researchConfig state w =
     (if hasPendingQuestions (ResearchQuestions state) then
        (NodeSelectQuestion,
         sendThought e state
           (thought StageThinking ''Found pending questions to continue research''
              ''continue_research'') w)
      else if CompletedQuestions state < MinQuestions researchConfig
              \<and> CurrentIteration state < MaxIterations state then
        (NodeGenerateQuestions,
         sendThought e state
           (thought StageThinking
              (''Completed question count is low ('' @ itoa (CompletedQuestions state)
                 @ ''), need to generate more research questions'')
              ''generate_new_questions'') w)
      else
        (NodeSynthesizeFinalAnswer,
         sendThought e state
           (thought StageThinking
              ''No more pending questions, starting synthesis of final answer''
              ''prepare_synthesis'') w))"

definition checkCompletionCondition ::
  "env \<Rightarrow> ResearchConfig \<Rightarrow> StreamingResearchState \<Rightarrow> world \<Rightarrow> node \<times> world" where
  "checkCompletionCondition e researchConfig state w =
     (let w0 = sendThought e state
                 (thought StageThinking
                    (''Checking research progress - Iteration: '' @ itoa (CurrentIteration state)
                       @ ''/'' @ itoa (MaxIterations state) @ '', Completed questions: ''
                       @ itoa (CompletedQuestions state))
                    ''progress_check'') w
      in if CurrentIteration state \<ge> MaxIterations state then
           (NodeSynthesizeFinalAnswer,
            sendThought e state
              (thought StageThinking
                 ''Maximum iteration count reached, starting synthesis of final answer''
                 ''iteration_complete'') w0)
         else if CompletedQuestions state > 0 then
           (let (sufficient, w1) = judgeSufficient e state w0
            in if sufficient then
                 (NodeSynthesizeFinalAnswer,
                  sendThought e state
                    (thought StageThinking
                       (''Model judged information sufficient (completed ''
                          @ itoa (CompletedQuestions state)
                          @ ''), starting synthesis of final answer'')
                       ''model_judge_sufficient'') w1)
               else afterJudgment e researchConfig state w1)
         else afterJudgment e researchConfig state w0)"

section \<open>Research agent: the nodes\<close>




subsection \<open>Generating questions\<close>

text \<open>
  The admission loop of \<^verbatim>\<open>createGenerateQuestionsNode\<close> over the parsed
  questions, \<open>i\<close> being the loop index: it stops once \<^verbatim>\<open>maxNewQuestions\<close>
  questions are admitted, and skips a question that is similar to a researched one.
\<close>

fun admitQuestions ::
  "int \<Rightarrow> StreamingResearchState \<Rightarrow> nat \<Rightarrow> (string \<times> int) list \<Rightarrow> ResearchQuestion list
     \<Rightarrow> ResearchQuestion list" where
  "admitQuestions maxNewQuestions state i [] newQuestions = newQuestions"
| "admitQuestions maxNewQuestions state i (d # ds) newQuestions =
     (if int (length newQuestions) \<ge> maxNewQuestions then newQuestions
      else if isSimilarQuestionResearched (fst d) (ResearchedQuestions state)
      then admitQuestions maxNewQuestions state (i + 1) ds newQuestions
      else admitQuestions maxNewQuestions state (i + 1) ds
             (newQuestions @
              [\<lparr>ID = QuestionIDPrefix @ itoa (CurrentIteration state) @ ''_'' @ itoa (int i + 1),
                Question = fst d, Status = QuestionStatusPending, SearchResults = [],
                WebContents = [], Analysis = [], Priority = snd d\<rparr>]))"


subsection \<open>Selecting a question\<close>




subsection \<open>Searching and scraping\<close>


definition callSearchTool :: "env \<Rightarrow> string \<Rightarrow> world \<Rightarrow> (agent_error + string) \<times> world" where
  "callSearchTool e query w = (searchTool e (toolCalls w) query, w\<lparr>toolCalls := toolCalls w + 1\<rparr>)"

definition callWebTool :: "env \<Rightarrow> string list \<Rightarrow> world \<Rightarrow> (agent_error + string) \<times> world" where
  "callWebTool e urls w = (webTool e (toolCalls w) urls, w\<lparr>toolCalls := toolCalls w + 1\<rparr>)"



subsection \<open>Analysing\<close>




text \<open>A call of \<^verbatim>\<open>chatModel.Stream\<close> with one user message.\<close>

definition StreamCall :: "env \<Rightarrow> prompt \<Rightarrow> world \<Rightarrow> (agent_error + string list) \<times> world" where
  "StreamCall e p w = (chatStream e (chatCalls w) p, w\<lparr>chatCalls := chatCalls w + 1\<rparr>)"

text \<open>
  The receive loop of a stream: every chunk is forwarded as a thought of the given
  stage and action.
\<close>

fun forwardChunks ::
  "env \<Rightarrow> StreamingResearchState \<Rightarrow> string \<Rightarrow> string \<Rightarrow> string list \<Rightarrow> world \<Rightarrow> world" where
  "forwardChunks e state stage action [] w = w"
| "forwardChunks e state stage action (chunk # chunks) w =
     forwardChunks e state stage action chunks (sendThought e state (thought stage chunk action) w)"


subsection \<open>Synthesising and counting iterations\<close>




section \<open>Research agent: the workflow graph and the stream\<close>





text \<open>
  What the producer does to the channel handed to the caller, in order: the sends
  that put a thought on it, and its closing.
\<close>

datatype chanOp = Send StreamingThought | Close

definition initialState :: "ResearchConfig \<Rightarrow> string \<Rightarrow> StreamingResearchState" where
  "initialState researchConfig query =
     \<lparr>OriginalQuery = query, CurrentIteration = 0, MaxIterations = CfgMaxIterations researchConfig,
      ResearchQuestions = [], ResearchedQuestions = [], CurrentResearchQ = None,
      AccumulatedInfo = [], FinalAnswer = [], StateIsComplete = False, CompletedQuestions = 0,
      ThoughtChannel = True\<rparr>"

definition initialWorld :: world where
  "initialWorld = \<lparr>chatCalls = 0, toolCalls = 0, sends = 0, channel = []\<rparr>"


section \<open>Research agent: vocabulary of the properties\<close>




text \<open>
  A reply of the chat capability contains \<^verbatim>\<open>true\<close> case-insensitively: at some
  position, its next four characters read \<^verbatim>\<open>true\<close> once lower-cased. An error
  is no reply.
\<close>

definition repliesTrue :: "agent_error + string \<Rightarrow> bool" where
  "repliesTrue reply =
     (case reply of
        Inl error \<Rightarrow> False
      | Inr content \<Rightarrow>
          list_ex (\<lambda>i. ToLower (take 4 (drop i content)) = ''true'') [0..<Suc (length content)])"

text \<open>
  The decision order of the completion check as the specification lists it, from the
  iteration counter, the iteration budget, the completed-question count, the reply
  to the sufficiency judgment, whether some question is pending, and the
  minimum-question threshold.
\<close>

definition completionRoute :: "int \<Rightarrow> int \<Rightarrow> int \<Rightarrow> agent_error + string \<Rightarrow> bool \<Rightarrow> int \<Rightarrow> node" where
  "completionRoute iteration budget completed reply pending minQuestions =
     (if iteration \<ge> budget then NodeSynthesizeFinalAnswer
      else if completed > 0 \<and> repliesTrue reply then NodeSynthesizeFinalAnswer
      else if pending then NodeSelectQuestion
      else if completed < minQuestions \<and> iteration < budget then NodeGenerateQuestions
      else NodeSynthesizeFinalAnswer)"

text \<open>
  The reply the chat capability gives to the sufficiency judgment over the
  accumulated analyses when it is asked in world \<open>w\<close>.
\<close>

definition sufficiencyReply :: "env \<Rightarrow> StreamingResearchState \<Rightarrow> world \<Rightarrow> agent_error + string" where
  "sufficiencyReply e state w =
     chatGenerate e (chatCalls w)
       (Sprintf ShouldSynthesizeEarlyPromptTemplate
          [OriginalQuery state, completedContent (ResearchQuestions state)])"

text \<open>The thoughts among the operations on the channel, and the operations that close it.\<close>

fun sentThoughts :: "chanOp list \<Rightarrow> StreamingThought list" where
  "sentThoughts [] = []"
| "sentThoughts (Send t # ops) = t # sentThoughts ops"
| "sentThoughts (Close # ops) = sentThoughts ops"

text \<open>No thought on the channel carries the completion flag.\<close>

definition quiet :: "world \<Rightarrow> bool" where
  "quiet w = list_all (\<lambda>t. \<not> IsComplete t) (channel w)"

subsection \<open>Example inputs\<close>

text \<open>
  A chat model that judges the findings sufficient, proposes two questions and
  streams two chunks; tools that find one page and fetch it; a channel that is
  never full.
\<close>

definition exampleEnv :: env where
  "exampleEnv =
     \<lparr>chatGenerate = (\<lambda>k p. case p of
          Sprintf ShouldSynthesizeEarlyPromptTemplate args \<Rightarrow> Inr ''True''
        | Sprintf t args \<Rightarrow> Inr ''[questions]''),
      chatStream = (\<lambda>k p. Inr [''An'', ''swer'']),
      decodeQuestions = (\<lambda>s. Inr [(''what is alpha beta'', 5), (''why gamma delta'', 3)]),
      searchTool = (\<lambda>k q. Inr ''{results}''),
      decodeSearchResponse = (\<lambda>s. Inr \<lparr>ToolSuccess = True, ToolQuery = ''q'', ToolEngine = ''c'',
                                         ToolResults = [exampleItem ''1'' ''u1'']\<rparr>),
      webTool = (\<lambda>k urls. Inr ''{pages}''),
      decodeWebResponse = (\<lambda>s. Inr \<lparr>ScrapeSuccess = True, ScrapeMessage = [],
                                      ScrapeResults = [\<lparr>WebURL = ''u1'', WebTitle = ''t'',
                                                        Content = ''text'', Links = None,
                                                        Images = None\<rparr>],
                                      ScrapeError = []\<rparr>),
      channelFull = (\<lambda>k. False)\<rparr>"

definition exampleResearchConfig :: "int \<Rightarrow> int \<Rightarrow> ResearchConfig" where
  "exampleResearchConfig maxIterations maxSteps =
     \<lparr>CfgMaxIterations = maxIterations, MaxSteps = maxSteps, MinQuestions = 2,
      MaxContentLength = 1000, MaxSingleContent = 100, ChannelBuffer = 100\<rparr>"

definition exampleQuestion :: "string \<Rightarrow> string \<Rightarrow> ResearchQuestion" where
  "exampleQuestion text status =
     \<lparr>ID = ''q_0_1'', Question = text, Status = status, SearchResults = [], WebContents = [],
      Analysis = [], Priority = 1\<rparr>"

section \<open>Retrieval strategy layer: lemmas\<close>

lemma unique_id_firstSeen:
  "fst (uniqueResults (\<lambda>r. r) xs seen) = firstSeen (filter (\<lambda>r. URL r = [] \<or> URL r \<notin> seen) xs)"
proof (induction xs arbitrary: seen)
  case Nil
  then show ?case by simp
next
  case (Cons r rs)
  show ?case
  proof (cases "URL r \<noteq> [] \<and> URL r \<in> seen")
    case True
    then show ?thesis using Cons.IH[of seen] by simp
  next
    case False
    have eq: "filter (\<lambda>r'. URL r' = [] \<or> URL r' \<noteq> URL r) (filter (\<lambda>r. URL r = [] \<or> URL r \<notin> seen) rs)
          = filter (\<lambda>r'. URL r' = [] \<or> URL r' \<notin> (if URL r \<noteq> [] then insert (URL r) seen else seen)) rs"
      by (auto intro!: filter_cong)
    from False show ?thesis
      using Cons.IH[of "if URL r \<noteq> [] then insert (URL r) seen else seen"] eq
      by (auto simp: split_beta Let_def)
  qed
qed

lemma unique_snd:
  "snd (uniqueResults ann xs seen) = seen \<union> (set (map URL xs) - {[]})"
  by (induction xs arbitrary: seen) (auto simp: split_beta Let_def)

lemma unique_append:
  "fst (uniqueResults (\<lambda>r. r) (xs @ ys) seen)
     = fst (uniqueResults (\<lambda>r. r) xs seen) @ fst (uniqueResults (\<lambda>r. r) ys (snd (uniqueResults (\<lambda>r. r) xs seen)))"
  by (induction xs arbitrary: seen) (auto simp: split_beta Let_def)

lemma firstSeen_subset: "set (firstSeen xs) \<subseteq> set xs"
  by (induction xs rule: firstSeen.induct) auto

lemma firstSeen_length: "length (firstSeen xs) \<le> length xs"
proof (induction xs rule: firstSeen.induct)
  case 1
  then show ?case by simp
next
  case (2 r rs)
  have "length (filter (\<lambda>r'. URL r' = [] \<or> URL r' \<noteq> URL r) rs) \<le> length rs"
    by (rule length_filter_le)
  with 2 have "length (firstSeen (filter (\<lambda>r'. URL r' = [] \<or> URL r' \<noteq> URL r) rs)) \<le> length rs"
    by (rule_tac le_trans)
  then show ?case by simp
qed

lemma firstSeen_noDuplicateURLs: "noDuplicateURLs (firstSeen xs)"
proof (induction xs rule: firstSeen.induct)
  case 1
  then show ?case by (simp add: noDuplicateURLs_def)
next
  case (2 r rs)
  let ?ys = "filter (\<lambda>r'. URL r' = [] \<or> URL r' \<noteq> URL r) rs"
  have "URL r \<noteq> [] \<Longrightarrow> URL r \<notin> URL ` set (firstSeen ?ys)"
    using firstSeen_subset[of ?ys] by auto
  with 2 show ?case by (auto simp: noDuplicateURLs_def)
qed

lemma noDuplicateURLs_take: "noDuplicateURLs xs \<Longrightarrow> noDuplicateURLs (take n xs)"
proof -
  assume a: "noDuplicateURLs xs"
  have "xs = take n xs @ drop n xs" by simp
  then have "filter (\<lambda>u. u \<noteq> []) (map URL xs)
      = filter (\<lambda>u. u \<noteq> []) (map URL (take n xs)) @ filter (\<lambda>u. u \<noteq> []) (map URL (drop n xs))"
    by (metis filter_append map_append)
  with a show ?thesis unfolding noDuplicateURLs_def by (metis distinct_append)
qed

lemma unique_pre_annotate:
  assumes "\<And>r. URL (ann r) = URL r"
  shows "uniqueResults ann xs seen = uniqueResults (\<lambda>r. r) (map ann xs) seen"
  by (induction xs arbitrary: seen) (auto simp: split_beta Let_def assms)

lemma take_maxResults: "take (nat (maxResults cfg xs)) xs = breadthCap cfg xs"
  by (auto simp: maxResults_def breadthCap_def)

lemma URL_annotateMixed [simp]: "URL (annotateMixed e r) = URL r"
  by (simp add: annotateMixed_def)

lemma URL_annotateFallback [simp]: "URL (annotateFallback e i r) = URL r"
  by (simp add: annotateFallback_def)

lemma collectOne_results:
  "allResults (collectOne cfg r acc)
     = allResults acc @ fst (uniqueResults (\<lambda>r. r) (cappedResults cfg r) (seenURLs acc))"
  "seenURLs (collectOne cfg r acc) = snd (uniqueResults (\<lambda>r. r) (cappedResults cfg r) (seenURLs acc))"
  "errors (collectOne cfg r acc) = errors acc @ engineErrors [r]"
  by (auto simp: collectOne_def cappedResults_def engineErrors_def take_maxResults Let_def split_beta
        unique_pre_annotate[of "annotateMixed (engine r)"] breadthCap_def
      split: option.splits)

lemma collectMixed_results:
  "allResults (collectMixed cfg ds acc)
     = allResults acc @ fst (uniqueResults (\<lambda>r. r) (collected cfg ds) (seenURLs acc))
   \<and> seenURLs (collectMixed cfg ds acc) = snd (uniqueResults (\<lambda>r. r) (collected cfg ds) (seenURLs acc))
   \<and> errors (collectMixed cfg ds acc) = errors acc @ engineErrors ds"
proof (induction ds arbitrary: acc)
  case Nil
  then show ?case by (simp add: collected_def engineErrors_def)
next
  case (Cons d ds)
  have c: "collected cfg (d # ds) = cappedResults cfg d @ collected cfg ds"
    by (simp add: collected_def)
  have e: "engineErrors (d # ds) = engineErrors [d] @ engineErrors ds"
    by (simp add: engineErrors_def)
  have s: "snd (uniqueResults (\<lambda>r. r) (xs @ ys) seen) = snd (uniqueResults (\<lambda>r. r) ys (snd (uniqueResults (\<lambda>r. r) xs seen)))"
    for xs ys seen
    by (auto simp: unique_snd)
  show ?case
    using Cons.IH[of "collectOne cfg d acc"]
    by (simp add: collectOne_results c e unique_append s)
qed

lemma collectMixed_merged:
  "allResults (collectMixed cfg ds emptyAcc) = firstSeen (collected cfg ds)"
  "errors (collectMixed cfg ds emptyAcc) = engineErrors ds"
  using collectMixed_results[of cfg ds emptyAcc]
  by (simp_all add: emptyAcc_def unique_id_firstSeen)

lemma firstSeen_empty_iff: "firstSeen xs = [] \<longleftrightarrow> xs = []"
  by (cases xs) simp_all

lemma breadthCap_noDup: "noDuplicateURLs xs \<Longrightarrow> noDuplicateURLs (breadthCap cfg xs)"
  by (simp add: breadthCap_def noDuplicateURLs_take)

lemma resultItems_sliceOf: "resultItems (r\<lparr>Results := sliceOf xs, TotalCount := n\<rparr>) = xs"
  by (simp add: resultItems_def sliceOf_def)

lemma fallbackSuccess_items:
  "resultItems (fallbackSuccess cfg e i {} raw)
     = breadthCap cfg (firstSeen (map (annotateFallback e i) (resultItems raw)))"
proof (cases "Results raw")
  case None
  then show ?thesis by (simp add: fallbackSuccess_def resultItems_def breadthCap_def)
next
  case (Some results)
  have u: "fst (uniqueResults (annotateFallback e i) results {})
             = firstSeen (map (annotateFallback e i) results)"
    using unique_id_firstSeen[of "map (annotateFallback e i) results" "{}"]
    by (simp add: unique_pre_annotate[of "annotateFallback e i"])
  have t: "(if Breadth cfg > 0 \<and> int (length xs) > Breadth cfg then take (nat (Breadth cfg)) xs else xs)
             = breadthCap cfg xs" for xs :: "SearchResultItem list"
    by (auto simp: breadthCap_def)
  have "fallbackSuccess cfg e i {} raw
          = raw\<lparr>Results := sliceOf (breadthCap cfg (firstSeen (map (annotateFallback e i) results))),
                TotalCount := int (length (breadthCap cfg (firstSeen (map (annotateFallback e i) results))))\<rparr>"
    using Some u by (simp add: fallbackSuccess_def split_beta Let_def t)
  then show ?thesis using Some by (simp add: resultItems_sliceOf) (simp add: resultItems_def)
qed

lemma getOrCreateAdapter_Inr:
  "getOrCreateAdapter create cached e = (Inr a, cached') \<Longrightarrow> cached' e = Some a"
  by (auto simp: getOrCreateAdapter_def split: option.splits sum.splits)

lemma fallbackLoop_returned:
  "ending (fallbackLoop create cfg request n i engines cached lastErr called) = Returned resp \<Longrightarrow>
     \<exists>j adapter raw.
        invoked (fallbackLoop create cfg request n i engines cached lastErr called) \<noteq> [] \<and>
        cache (fallbackLoop create cfg request n i engines cached lastErr called)
          (last (invoked (fallbackLoop create cfg request n i engines cached lastErr called))) = Some adapter \<and>
        adapter request = Inr (Some raw) \<and>
        resp = fallbackSuccess cfg
                 (last (invoked (fallbackLoop create cfg request n i engines cached lastErr called))) j {} raw"
proof (induction engines arbitrary: i cached lastErr called)
  case Nil
  then show ?case by simp
next
  case (Cons e es)
  obtain res cached' where g: "getOrCreateAdapter create cached e = (res, cached')"
    by (cases "getOrCreateAdapter create cached e")
  show ?case
  proof (cases res)
    case (Inl x)
    with g Cons show ?thesis by (auto split: if_splits)
  next
    case (Inr adapter)
    with g have c: "cached' e = Some adapter" by (simp add: getOrCreateAdapter_Inr)
    show ?thesis
    proof (cases "adapter request")
      case (Inl x)
      with g Inr Cons show ?thesis by (auto split: if_splits)
    next
      case r: (Inr ro)
      show ?thesis
      proof (cases ro)
        case None
        with g Inr r Cons.prems show ?thesis by simp
      next
        case (Some raw)
        with g Inr r Cons.prems c show ?thesis by auto
      qed
    qed
  qed
qed

lemma mixedWorker_consistent:
  assumes "consistent create cached"
  shows "fst (mixedWorker create request e cached) = workerResult create request e"
    and "consistent create (snd (snd (mixedWorker create request e cached)))"
  using assms
  by (auto simp: mixedWorker_def workerResult_def getOrCreateAdapter_def consistent_def
      split: option.splits sum.splits)

lemma mixedWorkers_consistent:
  "consistent create cached \<Longrightarrow>
     fst (mixedWorkers create request es cached) = map (workerResult create request) es"
proof (induction es arbitrary: cached)
  case Nil
  then show ?case by simp
next
  case (Cons e es)
  from Cons.prems have c: "consistent create (snd (snd (mixedWorker create request e cached)))"
    by (rule mixedWorker_consistent)
  show ?case
    using Cons.IH[OF c] mixedWorker_consistent(1)[OF Cons.prems, of request e]
    by (simp add: split_beta Let_def)
qed

lemma mixedWorkers_engines:
  "map engine (fst (mixedWorkers create request es cached)) = es"
proof (induction es arbitrary: cached)
  case Nil
  then show ?case by simp
next
  case (Cons e es)
  have "engine (fst (mixedWorker create request e cached)) = e"
    by (auto simp: mixedWorker_def split: prod.splits sum.splits)
  with Cons show ?case by (simp add: split_beta Let_def)
qed

lemma executeMixedSearch_cases:
  fixes create completion s request
  defines "delivered \<equiv> fst (mixedWorkers create request (completion (MixedEngines (config s))) (adapters s))"
  defines "merged \<equiv> firstSeen (collected (config s) delivered)"
  shows "ending (executeMixedSearch create completion s request) =
     (if MixedEngines (config s) = [] then Failed NoMixedEnginesConfigured
      else if merged = [] then
         (if engineErrors delivered \<noteq> [] then Failed (AllMixedFailed (engineErrors delivered))
          else Failed NoMixedResults)
      else Returned \<lparr>Query = ReqQuery request, Results = Some merged,
                     TotalCount = int (length merged), TimeTaken = 0\<rparr>)"
  unfolding delivered_def merged_def
  by (simp add: executeMixedSearch_def Let_def split_beta collectMixed_merged)



lemma sum_list_perm:
  fixes g :: "'a \<Rightarrow> nat"
  shows "mset xs = mset ys \<Longrightarrow> sum_list (map g xs) = sum_list (map g ys)"
  by (metis mset_map sum_mset_sum_list)

lemma collected_length:
  "length (collected cfg ds) = sum_list (map (\<lambda>d. length (cappedResults cfg d)) ds)"
  by (simp add: collected_def length_concat comp_def)

section \<open>Research agent: lemmas\<close>







lemma admitQuestions_extends:
  "\<exists>new. admitQuestions maxNew state i ds acc = acc @ new"
proof (induction ds arbitrary: i acc)
  case Nil
  then show ?case by simp
next
  case (Cons d ds)
  have step: "\<exists>new. admitQuestions maxNew state (i + 1) ds (acc @ [x]) = acc @ new" for x
  proof -
    obtain new where "admitQuestions maxNew state (i + 1) ds (acc @ [x]) = (acc @ [x]) @ new"
      using Cons.IH by blast
    then have "admitQuestions maxNew state (i + 1) ds (acc @ [x]) = acc @ ([x] @ new)" by simp
    then show ?thesis by blast
  qed
  show ?case using Cons.IH[of "i + 1" acc] step by auto
qed
lemma Contains_iff:
  "Contains s t \<longleftrightarrow> (\<exists>i \<le> length s. take (length t) (drop i s) = t)"
proof (induction s)
  case Nil
  then show ?case by auto
next
  case (Cons c cs)
  have "(\<exists>i \<le> length (c # cs). take (length t) (drop i (c # cs)) = t)
        \<longleftrightarrow> take (length t) (c # cs) = t \<or> (\<exists>i \<le> length cs. take (length t) (drop i cs) = t)"
  proof
    assume "\<exists>i \<le> length (c # cs). take (length t) (drop i (c # cs)) = t"
    then obtain i where i: "i \<le> length (c # cs)" "take (length t) (drop i (c # cs)) = t" by blast
    show "take (length t) (c # cs) = t \<or> (\<exists>i \<le> length cs. take (length t) (drop i cs) = t)"
    proof (cases i)
      case 0
      with i show ?thesis by simp
    next
      case (Suc j)
      with i have "j \<le> length cs" "take (length t) (drop j cs) = t" by simp_all
      then show ?thesis by blast
    qed
  next
    assume "take (length t) (c # cs) = t \<or> (\<exists>i \<le> length cs. take (length t) (drop i cs) = t)"
    then show "\<exists>i \<le> length (c # cs). take (length t) (drop i (c # cs)) = t"
    proof
      assume "take (length t) (c # cs) = t"
      then have "take (length t) (drop 0 (c # cs)) = t" by simp
      then show ?thesis by blast
    next
      assume "\<exists>i \<le> length cs. take (length t) (drop i cs) = t"
      then obtain j where "j \<le> length cs" "take (length t) (drop j cs) = t" by blast
      then have "Suc j \<le> length (c # cs)" "take (length t) (drop (Suc j) (c # cs)) = t" by simp_all
      then show ?thesis by blast
    qed
  qed
  with Cons show ?case by simp
qed

lemma list_ex_upt: "list_ex P [0..<Suc n] \<longleftrightarrow> (\<exists>i \<le> n. P i)"
proof -
  have "set [0..<Suc n] = {i. i \<le> n}" by auto
  then show ?thesis unfolding list_ex_iff by blast
qed

lemma ToLower_take_drop: "ToLower (take n (drop i s)) = take n (drop i (ToLower s))"
  by (simp add: ToLower_def take_map drop_map)

lemma repliesTrue_Contains:
  "repliesTrue reply = (case reply of Inl error \<Rightarrow> False | Inr content \<Rightarrow> Contains (ToLower content) ''true'')"
proof (cases reply)
  case (Inl a)
  then show ?thesis by (simp add: repliesTrue_def)
next
  case (Inr content)
  have four: "length ''true'' = 4" by simp
  have len: "length (ToLower content) = length content" by (simp add: ToLower_def)
  have "Contains (ToLower content) ''true''
        \<longleftrightarrow> (\<exists>i \<le> length content. take 4 (drop i (ToLower content)) = ''true'')"
    unfolding Contains_iff four len ..
  also have "\<dots> \<longleftrightarrow> list_ex (\<lambda>i. ToLower (take 4 (drop i content)) = ''true'') [0..<Suc (length content)]"
    unfolding list_ex_upt ToLower_take_drop ..
  finally show ?thesis using Inr by (simp only: repliesTrue_def sum.case)
qed

lemma sendThought_chatCalls [simp]: "chatCalls (sendThought e state t w) = chatCalls w"
  by (simp add: sendThought_def)

lemma hasPending_iff:
  "hasPendingQuestions qs \<longleftrightarrow> (\<exists>q \<in> set qs. Status q = QuestionStatusPending)"
  by (simp add: hasPendingQuestions_def list_ex_iff)
lemma quiet_sendThought [simp]:
  "quiet (sendThought e state (thought stage content action) w) = quiet w"
  by (simp add: quiet_def sendThought_def thought_def)

lemma quiet_Generate [simp]: "quiet (snd (Generate e p w)) = quiet w"
  by (simp add: quiet_def Generate_def)

lemma quiet_StreamCall [simp]: "quiet (snd (StreamCall e p w)) = quiet w"
  by (simp add: quiet_def StreamCall_def)

lemma quiet_callSearchTool [simp]: "quiet (snd (callSearchTool e q w)) = quiet w"
  by (simp add: quiet_def callSearchTool_def)

lemma quiet_callWebTool [simp]: "quiet (snd (callWebTool e q w)) = quiet w"
  by (simp add: quiet_def callWebTool_def)

lemma quiet_forwardChunks [simp]:
  "quiet (forwardChunks e state stage action chunks w) = quiet w"
  by (induction chunks arbitrary: w) simp_all













lemma sentThoughts_map_Send [simp]: "sentThoughts (map Send ts @ ops) = ts @ sentThoughts ops"
  by (induction ts) simp_all





section \<open>Retrieval strategy layer: the claims\<close>

text \<open>
  Claim C2. For every retrieval call that returns a result, in mixed and in fallback
  mode, no two items of the result share a non-empty URL. In mixed mode the result is
  the first-occurrence-wins deduplication of the collected engine results, each
  engine's results being cut to the breadth before that deduplication. In fallback
  mode the result is the first-occurrence-wins deduplication of the results of the
  engine that answered (the last one invoked), cut to the breadth afterwards.
\<close>

theorem merged_results_no_duplicate_urls:
  assumes "ending (Execute create completion s request) = Returned resp"
  shows "noDuplicateURLs (resultItems resp) \<and>
         (MixedEngines (config s) \<noteq> [] \<longrightarrow>
            resultItems resp = firstSeen (collected (config s)
               (fst (mixedWorkers create request (completion (MixedEngines (config s))) (adapters s))))) \<and>
         (MixedEngines (config s) = [] \<longrightarrow>
            (\<exists>i adapter raw.
               cache (Execute create completion s request)
                 (last (invoked (Execute create completion s request))) = Some adapter \<and>
               adapter request = Inr (Some raw) \<and>
               resultItems resp =
                 breadthCap (config s)
                   (firstSeen (map (annotateFallback
                      (last (invoked (Execute create completion s request))) i) (resultItems raw)))))"
proof (cases "MixedEngines (config s) = []")
  case True
  with assms have e: "ending (fallbackLoop create (config s) request (length (getEngineOrder s)) 0
                        (getEngineOrder s) (adapters s) None []) = Returned resp"
    by (simp add: Execute_def executeFallbackSearch_def Let_def)
  from fallbackLoop_returned[OF e] obtain j adapter raw where
    h: "cache (Execute create completion s request) (last (invoked (Execute create completion s request))) = Some adapter"
       "adapter request = Inr (Some raw)"
       "resp = fallbackSuccess (config s) (last (invoked (Execute create completion s request))) j {} raw"
    using True by (auto simp: Execute_def executeFallbackSearch_def Let_def)
  have items: "resultItems resp = breadthCap (config s) (firstSeen (map (annotateFallback
      (last (invoked (Execute create completion s request))) j) (resultItems raw)))"
    using h(3) by (simp add: fallbackSuccess_items)
  then have "noDuplicateURLs (resultItems resp)"
    by (simp add: breadthCap_noDup firstSeen_noDuplicateURLs)
  with True h items show ?thesis by blast
next
  case False
  with assms have "ending (executeMixedSearch create completion s request) = Returned resp"
    by (simp add: Execute_def)
  with False have "resultItems resp = firstSeen (collected (config s)
               (fst (mixedWorkers create request (completion (MixedEngines (config s))) (adapters s))))"
    by (auto simp: executeMixedSearch_cases resultItems_def split: if_splits)
  with False show ?thesis by (simp add: firstSeen_noDuplicateURLs)
qed

theorem merged_results_no_duplicate_urls_witness:
  "(\<exists>resp. ending (Execute exampleCreate rev
            (NewDefaultSearchStrategy (Some (exampleConfig [] [''c'', ''d''] False)))
            exampleRequest) = Returned resp \<and>
          map URL (resultItems resp) = [''u2'', ''u5'', ''u6'', ''u1''] \<and>
          noDuplicateURLs (resultItems resp)) \<and>
   (\<exists>resp. ending (Execute exampleCreate rev
            (NewDefaultSearchStrategy (Some (exampleConfig [''a'', ''c''] [] False)))
            exampleRequest) = Returned resp \<and>
          map URL (resultItems resp) = [''u1'', ''u2'', ''u3''] \<and>
          noDuplicateURLs (resultItems resp))"
proof -
  let ?mixed = "Execute exampleCreate rev
            (NewDefaultSearchStrategy (Some (exampleConfig [] [''c'', ''d''] False))) exampleRequest"
  let ?fallback = "Execute exampleCreate rev
            (NewDefaultSearchStrategy (Some (exampleConfig [''a'', ''c''] [] False))) exampleRequest"
  have "\<exists>resp. ending ?mixed = Returned resp \<and>
          map URL (resultItems resp) = [''u2'', ''u5'', ''u6'', ''u1'']"
    by (simp add: Execute_def executeMixedSearch_def NewDefaultSearchStrategy_def
        exampleConfig_def exampleRequest_def exampleCreate_def adapterC_def adapterD_def
        exampleResponse_def exampleItem_def mixedWorker_def getOrCreateAdapter_def
        collectOne_def emptyAcc_def maxResults_def resultItems_def annotateMixed_def Let_def)
  then obtain resp where h: "ending ?mixed = Returned resp"
    and u: "map URL (resultItems resp) = [''u2'', ''u5'', ''u6'', ''u1'']"
    by (elim exE conjE)
  from merged_results_no_duplicate_urls[OF h] have "noDuplicateURLs (resultItems resp)" by simp
  with h u have m: "\<exists>resp. ending ?mixed = Returned resp \<and>
          map URL (resultItems resp) = [''u2'', ''u5'', ''u6'', ''u1''] \<and>
          noDuplicateURLs (resultItems resp)"
    by (intro exI[of _ resp] conjI)
  have "\<exists>resp. ending ?fallback = Returned resp \<and>
          map URL (resultItems resp) = [''u1'', ''u2'', ''u3'']"
    by (simp add: Execute_def executeFallbackSearch_def getEngineOrder_def
        NewDefaultSearchStrategy_def exampleConfig_def exampleRequest_def exampleCreate_def
        failingAdapter_def adapterC_def exampleResponse_def exampleItem_def
        getOrCreateAdapter_def fallbackSuccess_def annotateFallback_def sliceOf_def
        resultItems_def Let_def)
  then obtain resp' where h': "ending ?fallback = Returned resp'"
    and u': "map URL (resultItems resp') = [''u1'', ''u2'', ''u3'']"
    by (elim exE conjE)
  from merged_results_no_duplicate_urls[OF h'] have "noDuplicateURLs (resultItems resp')" by simp
  with h' u' have "\<exists>resp. ending ?fallback = Returned resp \<and>
          map URL (resultItems resp) = [''u1'', ''u2'', ''u3''] \<and>
          noDuplicateURLs (resultItems resp)"
    by (intro exI[of _ resp'] conjI)
  with m show ?thesis by (intro conjI)
qed

text \<open>
  Claim C3 says that with fail-fast set a failed call halts the fallback. The code
  reads the enable-fallback flag there, not the fail-fast flag, and the constructor
  always sets the former: for the order [a, c] with fail-fast set, where the call of
  a fails and the call of c succeeds, both engines are invoked and the call returns
  the results of c.
\<close>

theorem fail_fast_does_not_halt_fallback:
  "invoked (executeFallbackSearch exampleCreate
      (NewDefaultSearchStrategy (Some (exampleConfig [''a'', ''c''] [] True))) exampleRequest)
     = [''a'', ''c''] \<and>
   (\<exists>resp. ending (executeFallbackSearch exampleCreate
      (NewDefaultSearchStrategy (Some (exampleConfig [''a'', ''c''] [] True))) exampleRequest)
     = Returned resp \<and> map URL (resultItems resp) = [''u1'', ''u2'', ''u3''])"
  by (simp add: executeFallbackSearch_def getEngineOrder_def NewDefaultSearchStrategy_def
      exampleConfig_def exampleRequest_def exampleCreate_def failingAdapter_def adapterC_def
      exampleResponse_def exampleItem_def getOrCreateAdapter_def fallbackSuccess_def
      annotateFallback_def sliceOf_def resultItems_def Let_def)

text \<open>
  Claim C9 says that the capability of an engine whose adapter could not be created
  is never called. With fail-fast off and the failing engine not the last one, the
  code falls through to the call on the nil adapter: for the order [zz, c], where
  the factory does not know zz, the search strategy panics on the nil adapter of zz
  before any engine is invoked, and so do the web strategy's \<^verbatim>\<open>Execute\<close> and
  \<^verbatim>\<open>ExecuteMultiple\<close> for the order [zz, jina].
\<close>

theorem nil_adapter_called_without_fail_fast:
  "ending (executeFallbackSearch exampleCreate
      (NewDefaultSearchStrategy (Some (exampleConfig [''zz'', ''c''] [] False))) exampleRequest)
     = Panicked (NilAdapterCall ''zz'') \<and>
   ending (WebExecute exampleWebCreate
      (NewDefaultWebStrategy (Some \<lparr>DefaultScraper = [], WebDefaultFallbackOrder = [''zz'', ''jina''],
             WebEnableFallback = True, WebFailFast = False\<rparr>)) ''http://x'' exampleOptions)
     = Panicked (NilAdapterCall ''zz'') \<and>
   ending (WebExecuteMultiple exampleWebCreate
      (NewDefaultWebStrategy (Some \<lparr>DefaultScraper = [], WebDefaultFallbackOrder = [''zz'', ''jina''],
             WebEnableFallback = True, WebFailFast = False\<rparr>)) [''http://x''] exampleOptions)
     = Panicked (NilAdapterCall ''zz'')"
  by (simp add: executeFallbackSearch_def getEngineOrder_def NewDefaultSearchStrategy_def
      exampleConfig_def exampleCreate_def getOrCreateAdapter_def WebExecute_def
      WebExecuteMultiple_def getScraperOrder_def NewDefaultWebStrategy_def exampleWebCreate_def
      Let_def)



text \<open>
  Claim C7. A mixed call tolerates the failure of some engines. Whenever all
  configured engines deliver: the call never panics; it returns an error only when
  the merged result set is empty, and that error then lists all per-engine errors
  that were collected (if there are any); when the merged set is not empty the
  call returns it. In particular, for a fresh strategy with three engines and
  breadth 3, where the first and the third engine return 5 results each and the
  second fails (in creating its adapter or in its call), the call succeeds with at
  most 6 items, no two of which share a non-empty URL.
\<close>

theorem mixed_tolerates_partial_failure:
  fixes create completion s request
  defines "delivered \<equiv>
     fst (mixedWorkers create request (completion (MixedEngines (config s))) (adapters s))"
  defines "merged \<equiv> firstSeen (collected (config s) delivered)"
  defines "run \<equiv> executeMixedSearch create completion s request"
  assumes perm: "mset (completion (MixedEngines (config s))) = mset (MixedEngines (config s))"
  shows "(\<forall>e. ending run = Failed e \<longrightarrow>
            merged = [] \<and>
            (e = AllMixedFailed (engineErrors delivered) \<or> engineErrors delivered = [])) \<and>
         (merged \<noteq> [] \<longrightarrow> (\<exists>resp. ending run = Returned resp \<and> resultItems resp = merged)) \<and>
         (\<forall>p. ending run \<noteq> Panicked p) \<and>
         map engine delivered = completion (MixedEngines (config s)) \<and>
         (MixedEngines (config s) = [E1, E2, E3] \<and> Breadth (config s) = 3 \<and>
          adapters s = Map.empty \<and>
          create E1 = Inr ad1 \<and> ad1 request = Inr (Some r1) \<and> length (resultItems r1) = 5 \<and>
          (create E2 = Inl err2 \<or> create E2 = Inr ad2 \<and> ad2 request = Inl err2) \<and>
          create E3 = Inr ad3 \<and> ad3 request = Inr (Some r3) \<and> length (resultItems r3) = 5
          \<longrightarrow> (\<exists>resp. ending run = Returned resp \<and> length (resultItems resp) \<le> 6 \<and>
                 noDuplicateURLs (resultItems resp)))"
proof -
  have cases: "ending run =
     (if MixedEngines (config s) = [] then Failed NoMixedEnginesConfigured
      else if merged = [] then
         (if engineErrors delivered \<noteq> [] then Failed (AllMixedFailed (engineErrors delivered))
          else Failed NoMixedResults)
      else Returned \<lparr>Query = ReqQuery request, Results = Some merged,
                     TotalCount = int (length merged), TimeTaken = 0\<rparr>)"
    unfolding run_def merged_def delivered_def by (rule executeMixedSearch_cases)
  have empty: "MixedEngines (config s) = [] \<Longrightarrow> merged = [] \<and> engineErrors delivered = []"
    using perm by (simp add: merged_def delivered_def collected_def engineErrors_def)
  have a: "\<forall>e. ending run = Failed e \<longrightarrow>
            merged = [] \<and> (e = AllMixedFailed (engineErrors delivered) \<or> engineErrors delivered = [])"
    using cases empty by (auto split: if_splits)
  have b: "merged \<noteq> [] \<longrightarrow> (\<exists>resp. ending run = Returned resp \<and> resultItems resp = merged)"
    using cases empty by (auto simp: resultItems_def)
  have c: "\<forall>p. ending run \<noteq> Panicked p"
    using cases by (auto split: if_splits)
  have d: "map engine delivered = completion (MixedEngines (config s))"
    by (simp add: delivered_def mixedWorkers_engines)
  have e: "\<exists>resp. ending run = Returned resp \<and> length (resultItems resp) \<le> 6 \<and>
                 noDuplicateURLs (resultItems resp)"
    if sc: "MixedEngines (config s) = [E1, E2, E3]" "Breadth (config s) = 3"
          "adapters s = Map.empty"
          "create E1 = Inr ad1" "ad1 request = Inr (Some r1)" "length (resultItems r1) = 5"
          "create E2 = Inl err2 \<or> create E2 = Inr ad2 \<and> ad2 request = Inl err2"
          "create E3 = Inr ad3" "ad3 request = Inr (Some r3)" "length (resultItems r3) = 5"
  proof -
    let ?W = "workerResult create request"
    let ?f = "\<lambda>e. length (cappedResults (config s) (?W e))"
    have del: "delivered = map ?W (completion [E1, E2, E3])"
      unfolding delivered_def sc(1)
      by (rule mixedWorkers_consistent) (simp add: consistent_def sc(3))
    have f1: "?f E1 = 3"
      using sc by (simp add: workerResult_def mixedWorker_def getOrCreateAdapter_def
          cappedResults_def breadthCap_def)
    have f2: "?f E2 = 0"
      using sc(7) by (auto simp: workerResult_def mixedWorker_def getOrCreateAdapter_def
          cappedResults_def)
    have f3: "?f E3 = 3"
      using sc by (simp add: workerResult_def mixedWorker_def getOrCreateAdapter_def
          cappedResults_def breadthCap_def)
    have "length (collected (config s) delivered) = sum_list (map ?f (completion [E1, E2, E3]))"
      by (simp add: collected_length del comp_def)
    also have "\<dots> = sum_list (map ?f [E1, E2, E3])"
      using perm unfolding sc(1) by (rule sum_list_perm)
    also have "\<dots> = 6" using f1 f2 f3 by simp
    finally have len: "length (collected (config s) delivered) = 6" .
    then have "length merged \<le> 6"
      using firstSeen_length[of "collected (config s) delivered"] by (simp add: merged_def)
    moreover have "merged \<noteq> []"
      using len by (auto simp: merged_def firstSeen_empty_iff)
    moreover have "noDuplicateURLs merged"
      by (simp add: merged_def firstSeen_noDuplicateURLs)
    ultimately show ?thesis using b by auto
  qed
  from a b c d e show ?thesis by blast
qed

theorem mixed_tolerates_partial_failure_witness:
  "ending (executeMixedSearch exampleCreate rev
      (NewDefaultSearchStrategy (Some (exampleConfig [] [''a'', ''zz''] False))) exampleRequest)
     = Failed (AllMixedFailed
         [EngineFailed ''zz'' (CreateAdapterFailed ''zz'' (External ''unregistered search engine'')),
          EngineFailed ''a'' (External ''timeout'')]) \<and>
   (\<exists>resp. ending (executeMixedSearch exampleCreate rev
      (NewDefaultSearchStrategy (Some (exampleConfig [] [''c'', ''a'', ''d''] False))) exampleRequest)
        = Returned resp \<and>
      length (resultItems resp) \<le> 6 \<and> noDuplicateURLs (resultItems resp))"
proof -
  let ?s1 = "NewDefaultSearchStrategy (Some (exampleConfig [] [''a'', ''zz''] False))"
  let ?s2 = "NewDefaultSearchStrategy (Some (exampleConfig [] [''c'', ''a'', ''d''] False))"
  let ?d1 = "fst (mixedWorkers exampleCreate exampleRequest (rev (MixedEngines (config ?s1)))
                (adapters ?s1))"
  have p1: "mset (rev (MixedEngines (config ?s1))) = mset (MixedEngines (config ?s1))" by simp
  have p2: "mset (rev (MixedEngines (config ?s2))) = mset (MixedEngines (config ?s2))" by simp
  have f: "ending (executeMixedSearch exampleCreate rev ?s1 exampleRequest)
             = Failed (AllMixedFailed
         [EngineFailed ''zz'' (CreateAdapterFailed ''zz'' (External ''unregistered search engine'')),
          EngineFailed ''a'' (External ''timeout'')])"
    by (simp add: executeMixedSearch_def NewDefaultSearchStrategy_def
        exampleConfig_def exampleRequest_def exampleCreate_def failingAdapter_def
        mixedWorker_def getOrCreateAdapter_def collectOne_def emptyAcc_def Let_def)
  have e: "engineErrors ?d1 \<noteq> []"
    by (simp add: NewDefaultSearchStrategy_def exampleConfig_def exampleCreate_def
        failingAdapter_def mixedWorker_def getOrCreateAdapter_def engineErrors_def Let_def)
  from mixed_tolerates_partial_failure[of rev ?s1 exampleCreate exampleRequest, OF p1] f e
  have "firstSeen (collected (config ?s1) ?d1) = []" by blast
  have "\<exists>resp. ending (executeMixedSearch exampleCreate rev ?s2 exampleRequest) = Returned resp \<and>
      length (resultItems resp) \<le> 6 \<and> noDuplicateURLs (resultItems resp)"
    using mixed_tolerates_partial_failure[of rev ?s2 exampleCreate exampleRequest
        "''c''" "''a''" "''d''" adapterC
        "exampleResponse
       [exampleItem ''1'' ''u1'', exampleItem ''2'' ''u2'', exampleItem ''3'' ''u1'',
        exampleItem ''4'' ''u3'', exampleItem ''5'' ''u4'']"
        "External ''timeout''" failingAdapter adapterD
        "exampleResponse
       [exampleItem ''6'' ''u2'', exampleItem ''7'' ''u5'', exampleItem ''8'' ''u6'',
        exampleItem ''9'' ''u7'', exampleItem ''10'' ''u8'']", OF p2]
    by (simp add: NewDefaultSearchStrategy_def exampleConfig_def exampleCreate_def
        failingAdapter_def adapterC_def adapterD_def exampleResponse_def resultItems_def Let_def)
  with f show ?thesis by blast
qed

text \<open>
  Claim C10. For every input configuration, the nil pointer and a configuration that
  sets the enable-fallback flag to false included, the strategy returned by
  \<^verbatim>\<open>NewDefaultSearchStrategy\<close> has the flag set, and so has the strategy returned
  by \<^verbatim>\<open>NewDefaultWebStrategy\<close>.
\<close>

theorem constructors_force_enable_fallback:
  "EnableFallback (config (NewDefaultSearchStrategy cfg)) = True \<and>
   WebEnableFallback (webConfig (NewDefaultWebStrategy wcfg)) = True"
  by (simp add: NewDefaultSearchStrategy_def NewDefaultWebStrategy_def Let_def)

theorem constructors_force_enable_fallback_witness:
  "EnableFallback (config (NewDefaultSearchStrategy
      (Some (exampleConfig [''a'', ''b''] [] True)))) = True \<and>
   WebEnableFallback (webConfig (NewDefaultWebStrategy
      (Some \<lparr>DefaultScraper = ''jina'', WebDefaultFallbackOrder = [''jina''],
             WebEnableFallback = False, WebFailFast = True\<rparr>))) = True"
  by (rule constructors_force_enable_fallback)

section \<open>Research agent: the claims\<close>

text \<open>
  Claim C1. For every state, the completion check takes the branches in the order
  of the specification: (1) the iteration counter has reached the budget: synthesize;
  (2) else, some question is completed and the reply of the chat capability to the
  sufficiency judgment contains "true" case-insensitively: synthesize; (3) else,
  some question is pending: select a question; (4) else, fewer questions are
  completed than the minimum and the iteration counter is below the budget:
  generate questions; (5) otherwise synthesize. The chat capability is asked once
  when the check reaches step (2) with a completed question, and not at all
  otherwise.
\<close>

theorem completion_check_decision_order:
  "fst (checkCompletionCondition e researchConfig state w)
     = completionRoute (CurrentIteration state) (MaxIterations state) (CompletedQuestions state)
         (sufficiencyReply e state w)
         (\<exists>q \<in> set (ResearchQuestions state). Status q = QuestionStatusPending)
         (MinQuestions researchConfig) \<and>
   chatCalls (snd (checkCompletionCondition e researchConfig state w))
     = chatCalls w + (if CurrentIteration state < MaxIterations state \<and> CompletedQuestions state > 0
                      then 1 else 0)"
  by (auto simp: checkCompletionCondition_def completionRoute_def judgeSufficient_def
      afterJudgment_def Generate_def sufficiencyReply_def repliesTrue_Contains hasPending_iff
      Let_def split_beta split: sum.splits)

theorem completion_check_decision_order_witness:
  "fst (checkCompletionCondition exampleEnv (exampleResearchConfig 3 50)
          ((initialState (exampleResearchConfig 3 50) ''q'')
             \<lparr>ResearchQuestions := [exampleQuestion ''what is alpha'' QuestionStatusPending],
              CompletedQuestions := 1\<rparr>) initialWorld)
     = NodeSynthesizeFinalAnswer \<and>
   fst (checkCompletionCondition exampleEnv (exampleResearchConfig 3 50)
          ((initialState (exampleResearchConfig 3 50) ''q'')
             \<lparr>ResearchQuestions := [exampleQuestion ''what is alpha'' QuestionStatusPending]\<rparr>)
          initialWorld)
     = NodeSelectQuestion \<and>
   fst (checkCompletionCondition exampleEnv (exampleResearchConfig 3 50)
          (initialState (exampleResearchConfig 3 50) ''q'') initialWorld)
     = NodeGenerateQuestions"
proof -
  let ?cfg = "exampleResearchConfig 3 50"
  let ?q = "exampleQuestion ''what is alpha'' QuestionStatusPending"
  have r: "repliesTrue (Inr ''True'')"
    by (simp add: repliesTrue_def ToLower_def lowerChar_def upt_rec)
  have 1: "fst (checkCompletionCondition exampleEnv ?cfg
          ((initialState ?cfg ''q'')\<lparr>ResearchQuestions := [?q], CompletedQuestions := 1\<rparr>)
          initialWorld) = NodeSynthesizeFinalAnswer"
    using completion_check_decision_order[of exampleEnv ?cfg
        "(initialState ?cfg ''q'')\<lparr>ResearchQuestions := [?q], CompletedQuestions := 1\<rparr>" initialWorld] r
    by (simp add: completionRoute_def sufficiencyReply_def exampleEnv_def initialState_def
        exampleResearchConfig_def)
  have 2: "fst (checkCompletionCondition exampleEnv ?cfg
          ((initialState ?cfg ''q'')\<lparr>ResearchQuestions := [?q]\<rparr>) initialWorld) = NodeSelectQuestion"
    using completion_check_decision_order[of exampleEnv ?cfg
        "(initialState ?cfg ''q'')\<lparr>ResearchQuestions := [?q]\<rparr>" initialWorld]
    by (simp add: completionRoute_def initialState_def exampleResearchConfig_def
        exampleQuestion_def)
  have 3: "fst (checkCompletionCondition exampleEnv ?cfg (initialState ?cfg ''q'') initialWorld)
             = NodeGenerateQuestions"
    using completion_check_decision_order[of exampleEnv ?cfg "initialState ?cfg ''q''" initialWorld]
    by (simp add: completionRoute_def initialState_def exampleResearchConfig_def)
  from 1 2 3 show ?thesis by simp
qed









end
